theory Spec2Isabelle
  imports Main "HOL-Library.Word"
begin

unbundle bit_operations_syntax

section \<open>C strings\<close>

text \<open>
  A \<^verbatim>\<open>const char *\<close> argument is a \<open>char list option\<close>: \<open>None\<close> is the null pointer,
  \<open>Some buf\<close> the bytes found at the pointer. The C library reads such a buffer up to the
  first NUL byte; the end of the list stands for the terminator of a buffer that holds no
  NUL byte of its own. \<open>c_str\<close> is the string a buffer denotes.
\<close>

definition c_str :: "char list \<Rightarrow> char list" where
  "c_str buf = takeWhile (\<lambda>c. c \<noteq> CHR 0x00) buf"

text \<open>\<^verbatim>\<open>strlen\<close>: the number of bytes before the terminator.\<close>

fun strlen :: "char list \<Rightarrow> nat" where
  "strlen [] = 0"
| "strlen (c # cs) = (if c = CHR 0x00 then 0 else Suc (strlen cs))"

text \<open>
  \<^verbatim>\<open>strcmp\<close>: the difference of the first two bytes that differ, read as
  \<^verbatim>\<open>unsigned char\<close>, and 0 when both strings end together.
\<close>

fun strcmp :: "char list \<Rightarrow> char list \<Rightarrow> int" where
  "strcmp [] [] = 0"
| "strcmp [] (b # bs) = 0 - of_char b"
| "strcmp (a # as) [] = of_char a"
| "strcmp (a # as) (b # bs) =
     (if a \<noteq> b then of_char a - of_char b
      else if a = CHR 0x00 then 0
      else strcmp as bs)"

section \<open>Hostname classifier\<close>

text \<open>
  \<^verbatim>\<open>
  static int is_localhost_domain(const char *hostname) {
      if (!hostname) return 0;
      size_t len = strlen(hostname);
      if (len >= 10 && strcmp(hostname + len - 10, ".localhost") == 0) {
          return 1;
      }
      return 0;
  }
  \<close>
  The function is the same in both source files. \<^verbatim>\<open>hostname + len - 10\<close> is the buffer
  without its first \<open>len - 10\<close> bytes.
\<close>

definition is_localhost_domain :: "char list option \<Rightarrow> 32 word" where
  "is_localhost_domain hostname =
     (case hostname of
        None \<Rightarrow> 0
      | Some h \<Rightarrow>
          (let len = strlen h in
           if len \<ge> 10 \<and> strcmp (drop (len - 10) h) ''.localhost'' = 0 then 1 else 0))"

section \<open>The C library's parsers\<close>

text \<open>
  \<^verbatim>\<open>atoi\<close> and \<^verbatim>\<open>inet_pton\<close> belong to the C library, not to this repository. They are
  written out so that the builder can be run on concrete arguments. \<^verbatim>\<open>atoi(s)\<close> is
  \<^verbatim>\<open>(int) strtol(s, NULL, 10)\<close>: white space is skipped, one sign is read, then decimal
  digits up to the first other byte; a value outside \<^verbatim>\<open>long\<close> is clamped, and the
  conversion to \<^verbatim>\<open>int\<close> keeps the low 32 bits.
\<close>

definition isspace :: "char \<Rightarrow> bool" where
  "isspace c = (c = CHR '' '' \<or> (9 :: nat) \<le> of_char c \<and> (of_char c :: nat) \<le> 13)"

definition isdigit :: "char \<Rightarrow> bool" where
  "isdigit c = ((48 :: nat) \<le> of_char c \<and> (of_char c :: nat) \<le> 57)"

fun digits_value :: "int \<Rightarrow> char list \<Rightarrow> int" where
  "digits_value acc [] = acc"
| "digits_value acc (c # cs) =
     (if isdigit c then digits_value (acc * 10 + (of_char c - 48)) cs else acc)"

definition atoi :: "char list \<Rightarrow> 32 word" where
  "atoi s =
     (let t = dropWhile isspace (c_str s);
          neg = (case t of [] \<Rightarrow> False | c # r \<Rightarrow> c = CHR ''-'');
          d = (case t of [] \<Rightarrow> [] | c # r \<Rightarrow> if c = CHR ''-'' \<or> c = CHR ''+'' then r else t);
          v = digits_value 0 d;
          l = (if neg then max (- v) (- (2 ^ 63)) else min v (2 ^ 63 - 1))
      in word_of_int l)"

text \<open>
  \<^verbatim>\<open>inet_pton(AF_INET, src, dst)\<close>: four decimal fields separated by dots, each of one to
  three digits, at most 255 and without a leading zero. The bytes are written in network
  order; on a malformed string nothing is written (\<open>None\<close>).
\<close>

fun split_dots :: "char list \<Rightarrow> char list list" where
  "split_dots [] = [[]]"
| "split_dots (c # cs) =
     (if c = CHR ''.'' then [] # split_dots cs
      else (case split_dots cs of [] \<Rightarrow> [[c]] | p # ps \<Rightarrow> (c # p) # ps))"

definition octet :: "char list \<Rightarrow> 8 word option" where
  "octet ds =
     (if ds \<noteq> [] \<and> length ds \<le> 3 \<and> list_all isdigit ds
         \<and> (length ds = 1 \<or> take 1 ds \<noteq> ''0'') \<and> digits_value 0 ds \<le> 255
      then Some (word_of_int (digits_value 0 ds)) else None)"

definition inet_pton4 :: "char list \<Rightarrow> 8 word list option" where
  "inet_pton4 src =
     (let fields = map octet (split_dots (c_str src))
      in if length fields = 4 \<and> list_all (\<lambda>f. f \<noteq> None) fields
         then Some (map the fields) else None)"

text \<open>
  \<^verbatim>\<open>htons(v)\<close> is the 16-bit value whose bytes in memory are \<open>v\<close>'s high byte, then its
  low byte, whatever the byte order of the host. A port field is modelled by these two
  bytes in memory order, so \<open>htons\<close> gives the bytes stored and \<open>port_of_bytes\<close> reads
  them back as the number they carry on the wire.
\<close>

definition htons :: "16 word \<Rightarrow> 8 word list" where
  "htons v = [ucast (drop_bit 8 v), ucast v]"

definition port_of_bytes :: "8 word list \<Rightarrow> nat" where
  "port_of_bytes bs = (case bs of [hi, lo] \<Rightarrow> 256 * unat hi + unat lo | _ \<Rightarrow> 0)"

section \<open>Constants of the system headers\<close>

text \<open>
  The two source files are built for two systems: \<^verbatim>\<open>src/dylib/lohost_dns_full.c\<close> for macOS
  and \<^verbatim>\<open>src/native/linux/lohost_dns.c\<close> for Linux. The macros below come from
  \<^verbatim>\<open>sys/socket.h\<close>, \<^verbatim>\<open>netinet/in.h\<close>, \<^verbatim>\<open>netdb.h\<close> and \<^verbatim>\<open>dlfcn.h\<close> of the system; only
  \<^verbatim>\<open>AF_INET6\<close> and \<^verbatim>\<open>EAI_SYSTEM\<close> differ between the two.
\<close>

datatype os = Darwin | Linux

definition AF_INET :: "32 word" where "AF_INET = 2"

definition AF_INET6 :: "os \<Rightarrow> 32 word" where
  "AF_INET6 t = (case t of Darwin \<Rightarrow> 30 | Linux \<Rightarrow> 10)"

definition SOCK_STREAM :: "32 word" where "SOCK_STREAM = 1"

definition IPPROTO_TCP :: "32 word" where "IPPROTO_TCP = 6"

definition EAI_SYSTEM :: "os \<Rightarrow> 32 word" where
  "EAI_SYSTEM t = (case t of Darwin \<Rightarrow> 11 | Linux \<Rightarrow> - 11)"

definition sizeof_sockaddr_in :: "32 word" where "sizeof_sockaddr_in = 16"

definition RTLD_NEXT :: int where "RTLD_NEXT = - 1"

section \<open>Memory\<close>

type_synonym addr = nat

text \<open>
  \<^verbatim>\<open>struct addrinfo\<close> and \<^verbatim>\<open>struct sockaddr_in\<close>. A pointer is an \<open>addr option\<close>, \<open>None\<close>
  being \<^verbatim>\<open>NULL\<close>. \<open>sin_len\<close> exists on macOS only and stays 0 on Linux; \<open>sin_family\<close> is
  a \<^verbatim>\<open>sa_family_t\<close>, 8 bits wide on macOS and 16 on Linux, and the one value stored in it
  fits both; \<open>sin_port\<close> and \<open>sin_addr\<close> are the bytes of the field in memory order.
\<close>

record addrinfo =
  ai_flags :: "32 word"
  ai_family :: "32 word"
  ai_socktype :: "32 word"
  ai_protocol :: "32 word"
  ai_addrlen :: "32 word"
  ai_addr :: "addr option"
  ai_canonname :: "addr option"
  ai_next :: "addr option"

record sockaddr_in =
  sin_len :: "8 word"
  sin_family :: "16 word"
  sin_port :: "8 word list"
  sin_addr :: "8 word list"
  sin_zero :: "8 word list"

datatype obj =
    Addrinfo addrinfo
  | Sockaddr_in sockaddr_in
  | Pointer "addr option"
  | Mach_port "32 word"

text \<open>
  The part of the process that code outside the library can see and change: the heap, the
  next address the allocator hands out, and the outcomes of the coming allocations
  (\<open>True\<close>: memory is there; an exhausted list: it is not). An allocation's failure is
  the environment's choice, so every sequence of outcomes is a world.
\<close>

record world =
  heap :: "addr \<rightharpoonup> obj"
  brk :: addr
  calloc_fate :: "bool list"

text \<open>\<^verbatim>\<open>calloc(1, sizeof(T))\<close>: a fresh object of type \<open>T\<close> with every byte 0, or \<^verbatim>\<open>NULL\<close>.\<close>

definition calloc :: "obj \<Rightarrow> world \<Rightarrow> addr option \<times> world" where
  "calloc zero w =
     (case calloc_fate w of
        [] \<Rightarrow> (None, w)
      | ok # rest \<Rightarrow>
          if ok
          then (Some (brk w),
                w\<lparr>heap := (heap w)(brk w \<mapsto> zero), brk := Suc (brk w), calloc_fate := rest\<rparr>)
          else (None, w\<lparr>calloc_fate := rest\<rparr>))"

definition free :: "addr \<Rightarrow> world \<Rightarrow> world" where
  "free p w = w\<lparr>heap := (heap w)(p := None)\<rparr>"

definition store :: "addr \<Rightarrow> obj \<Rightarrow> world \<Rightarrow> world" where
  "store p v w = w\<lparr>heap := (heap w)(p \<mapsto> v)\<rparr>"

definition zero_addrinfo :: addrinfo where
  "zero_addrinfo =
     \<lparr>ai_flags = 0, ai_family = 0, ai_socktype = 0, ai_protocol = 0, ai_addrlen = 0,
      ai_addr = None, ai_canonname = None, ai_next = None\<rparr>"

definition zero_sockaddr_in :: sockaddr_in where
  "zero_sockaddr_in =
     \<lparr>sin_len = 0, sin_family = 0, sin_port = [0, 0], sin_addr = [0, 0, 0, 0],
      sin_zero = [0, 0, 0, 0, 0, 0, 0, 0]\<rparr>"

section \<open>Synthetic record builder\<close>

text \<open>
  \<^verbatim>\<open>
  static struct addrinfo* make_localhost_result(const char *service,
                                                 const struct addrinfo *hints) {
      struct addrinfo *ai = calloc(1, sizeof(struct addrinfo));
      if (!ai) return NULL;
      struct sockaddr_in *sa = calloc(1, sizeof(struct sockaddr_in));
      if (!sa) { free(ai); return NULL; }
      sa->sin_len = sizeof(struct sockaddr_in);          // macOS file only
      sa->sin_family = AF_INET;
      inet_pton(AF_INET, "127.0.0.1", &sa->sin_addr);
      if (service) {
          int port = atoi(service);
          sa->sin_port = htons(port > 0 ? port : 0);
      }
      ai->ai_flags = hints ? hints->ai_flags : 0;
      ai->ai_family = AF_INET;
      ai->ai_socktype = hints ? hints->ai_socktype : SOCK_STREAM;
      ai->ai_protocol = hints ? hints->ai_protocol : IPPROTO_TCP;
      if (ai->ai_socktype == 0) ai->ai_socktype = SOCK_STREAM;
      if (ai->ai_protocol == 0) ai->ai_protocol = IPPROTO_TCP;
      ai->ai_addrlen = sizeof(struct sockaddr_in);
      ai->ai_addr = (struct sockaddr *)sa;
      ai->ai_canonname = NULL;
      ai->ai_next = NULL;
      return ai;
  }
  \<close>
  The two files differ in the \<open>sin_len\<close> line alone, so one definition takes the system
  as its first argument. \<open>hints\<close> is read, never written: it is passed as the value found
  behind the pointer. The two structures are filled in as local values, statement by
  statement, and stored at the end; nothing reads the heap in between.
\<close>

definition fill_sockaddr_in :: "os \<Rightarrow> char list option \<Rightarrow> sockaddr_in \<Rightarrow> sockaddr_in" where
  "fill_sockaddr_in t service sa0 =
     (let sa1 = (if t = Darwin then sa0\<lparr>sin_len := ucast sizeof_sockaddr_in\<rparr> else sa0);
          sa2 = sa1\<lparr>sin_family := ucast AF_INET\<rparr>;
          sa3 = (case inet_pton4 ''127.0.0.1'' of
                   None \<Rightarrow> sa2
                 | Some bytes \<Rightarrow> sa2\<lparr>sin_addr := bytes\<rparr>)
      in case service of
           None \<Rightarrow> sa3
         | Some sv \<Rightarrow>
             (let port = atoi sv
              in sa3\<lparr>sin_port := htons (ucast (if 0 <s port then port else 0))\<rparr>))"

definition fill_addrinfo :: "addrinfo option \<Rightarrow> addr \<Rightarrow> addrinfo \<Rightarrow> addrinfo" where
  "fill_addrinfo hints sa ai0 =
     (let ai1 = ai0\<lparr>ai_flags := (case hints of None \<Rightarrow> 0 | Some h \<Rightarrow> ai_flags h)\<rparr>;
          ai2 = ai1\<lparr>ai_family := AF_INET\<rparr>;
          ai3 = ai2\<lparr>ai_socktype := (case hints of None \<Rightarrow> SOCK_STREAM | Some h \<Rightarrow> ai_socktype h)\<rparr>;
          ai4 = ai3\<lparr>ai_protocol := (case hints of None \<Rightarrow> IPPROTO_TCP | Some h \<Rightarrow> ai_protocol h)\<rparr>;
          ai5 = (if ai_socktype ai4 = 0 then ai4\<lparr>ai_socktype := SOCK_STREAM\<rparr> else ai4);
          ai6 = (if ai_protocol ai5 = 0 then ai5\<lparr>ai_protocol := IPPROTO_TCP\<rparr> else ai5)
      in ai6\<lparr>ai_addrlen := sizeof_sockaddr_in, ai_addr := Some sa,
              ai_canonname := None, ai_next := None\<rparr>)"

definition make_localhost_result ::
  "os \<Rightarrow> char list option \<Rightarrow> addrinfo option \<Rightarrow> world \<Rightarrow> addr option \<times> world" where
  "make_localhost_result t service hints w =
     (case calloc (Addrinfo zero_addrinfo) w of
        (None, w1) \<Rightarrow> (None, w1)
      | (Some ai, w1) \<Rightarrow>
          (case calloc (Sockaddr_in zero_sockaddr_in) w1 of
             (None, w2) \<Rightarrow> (None, free ai w2)
           | (Some sa, w2) \<Rightarrow>
               (Some ai,
                store ai (Addrinfo (fill_addrinfo hints sa zero_addrinfo))
                  (store sa (Sockaddr_in (fill_sockaddr_in t service zero_sockaddr_in)) w2))))"

section \<open>The library's state and the code around it\<close>

text \<open>
  The library calls code it does not contain: the system's resolver, the system's
  \<^verbatim>\<open>dlsym\<close>, the captured asynchronous entry point and the caller's callback. Each is
  a function of the world it runs in, and each call is recorded in a trace that only
  the library's own code extends, so that a theorem can say which calls were made, in
  which order and with which arguments. A function pointer is the address of the code
  behind it.

  \<^verbatim>\<open>debug_log\<close> prints a line on the standard error stream when the environment variable
  \<^verbatim>\<open>LOHOST_DEBUG\<close> is set and has no other effect; no value the functions below compute
  depends on it, and its calls are left out.
\<close>

datatype event =
    Ev_getaddrinfo "addr option" "char list option" "char list option" "addrinfo option" addr
  | Ev_async_start addr "addr option" "char list option" "char list option" "addrinfo option"
      "addr option" "addr option"
  | Ev_callback addr "32 word" "addr option" "addr option"
  | Ev_dlsym int "char list option"

record env =
  libc_getaddrinfo ::
    "char list option \<Rightarrow> char list option \<Rightarrow> addrinfo option \<Rightarrow> addr \<Rightarrow> world \<Rightarrow> 32 word \<times> world"
  fn_getaddrinfo ::
    "addr \<Rightarrow> char list option \<Rightarrow> char list option \<Rightarrow> addrinfo option \<Rightarrow> addr \<Rightarrow> world
      \<Rightarrow> 32 word \<times> world"
  fn_async_start ::
    "addr \<Rightarrow> addr option \<Rightarrow> char list option \<Rightarrow> char list option \<Rightarrow> addrinfo option
      \<Rightarrow> addr option \<Rightarrow> addr option \<Rightarrow> world \<Rightarrow> 32 word \<times> world"
  fn_callback :: "addr \<Rightarrow> 32 word \<Rightarrow> addr option \<Rightarrow> addr option \<Rightarrow> world \<Rightarrow> world"
  libc_dlsym :: "int \<Rightarrow> char list option \<Rightarrow> world \<Rightarrow> addr option \<times> world"

text \<open>
  The static variables of the two files (\<^verbatim>\<open>real_getaddrinfo\<close> of the Linux file,
  \<^verbatim>\<open>real_async_start\<close> of the macOS file), the world and the trace. The statics start
  as \<^verbatim>\<open>NULL\<close>; code outside the library cannot name them.
\<close>

record state =
  real_getaddrinfo :: "addr option"
  real_async_start :: "addr option"
  world :: world
  trace :: "event list"

definition call_getaddrinfo ::
  "env \<Rightarrow> addr option \<Rightarrow> char list option \<Rightarrow> char list option \<Rightarrow> addrinfo option \<Rightarrow> addr
    \<Rightarrow> state \<Rightarrow> 32 word \<times> state" where
  "call_getaddrinfo e f node service hints res s =
     (let (r, w) = (case f of
                      None \<Rightarrow> libc_getaddrinfo e node service hints res (world s)
                    | Some p \<Rightarrow> fn_getaddrinfo e p node service hints res (world s))
      in (r, s\<lparr>world := w, trace := trace s @ [Ev_getaddrinfo f node service hints res]\<rparr>))"

definition call_async_start ::
  "env \<Rightarrow> addr \<Rightarrow> addr option \<Rightarrow> char list option \<Rightarrow> char list option \<Rightarrow> addrinfo option
    \<Rightarrow> addr option \<Rightarrow> addr option \<Rightarrow> state \<Rightarrow> 32 word \<times> state" where
  "call_async_start e f port node service hints callback context s =
     (let (r, w) = fn_async_start e f port node service hints callback context (world s)
      in (r, s\<lparr>world := w,
                trace := trace s @ [Ev_async_start f port node service hints callback context]\<rparr>))"

definition call_callback ::
  "env \<Rightarrow> addr \<Rightarrow> 32 word \<Rightarrow> addr option \<Rightarrow> addr option \<Rightarrow> state \<Rightarrow> state" where
  "call_callback e cb status result context s =
     s\<lparr>world := fn_callback e cb status result context (world s),
       trace := trace s @ [Ev_callback cb status result context]\<rparr>"

definition call_dlsym :: "env \<Rightarrow> int \<Rightarrow> char list option \<Rightarrow> state \<Rightarrow> addr option \<times> state" where
  "call_dlsym e handle symbol s =
     (let (r, w) = libc_dlsym e handle symbol (world s)
      in (r, s\<lparr>world := w, trace := trace s @ [Ev_dlsym handle symbol]\<rparr>))"

section \<open>Synchronous interception\<close>

text \<open>
  \<^verbatim>\<open>hints && hints->ai_family == AF_INET6\<close>, the test both synchronous entry points make.
\<close>

definition hints_want_inet6 :: "os \<Rightarrow> addrinfo option \<Rightarrow> bool" where
  "hints_want_inet6 t hints =
     (case hints of None \<Rightarrow> False | Some h \<Rightarrow> ai_family h = AF_INET6 t)"

text \<open>
  The part the two entry points share, from the classification to the label
  \<^verbatim>\<open>fallthrough\<close>; \<open>f\<close> is the way the real resolver is reached (\<open>None\<close>: the symbol
  \<^verbatim>\<open>getaddrinfo\<close> itself, as the macOS file calls it; \<open>Some p\<close>: through the pointer
  \<^verbatim>\<open>real_getaddrinfo\<close>, as the Linux file does).
  \<^verbatim>\<open>
      if (is_localhost_domain(node)) {
          if (hints && hints->ai_family == AF_INET6) {
              goto fallthrough;
          }
          struct addrinfo *result = make_localhost_result(service, hints);
          if (result) {
              *res = result;
              return 0;
          }
      }
  fallthrough:
      return getaddrinfo(node, service, hints, res);       // macOS
      return real_getaddrinfo(node, service, hints, res);  // Linux
  \<close>
\<close>

definition intercept_sync ::
  "os \<Rightarrow> env \<Rightarrow> addr option \<Rightarrow> char list option \<Rightarrow> char list option \<Rightarrow> addrinfo option \<Rightarrow> addr
    \<Rightarrow> state \<Rightarrow> 32 word \<times> state" where
  "intercept_sync t e f node service hints res s =
     (if is_localhost_domain node \<noteq> 0 then
        (if hints_want_inet6 t hints then call_getaddrinfo e f node service hints res s
         else
           (case make_localhost_result t service hints (world s) of
              (Some result, w) \<Rightarrow> (0, s\<lparr>world := store res (Pointer (Some result)) w\<rparr>)
            | (None, w) \<Rightarrow> call_getaddrinfo e f node service hints res (s\<lparr>world := w\<rparr>)))
      else call_getaddrinfo e f node service hints res s)"

text \<open>\<^verbatim>\<open>hooked_getaddrinfo\<close> of the macOS file is that part and nothing else.\<close>

definition hooked_getaddrinfo ::
  "env \<Rightarrow> char list option \<Rightarrow> char list option \<Rightarrow> addrinfo option \<Rightarrow> addr
    \<Rightarrow> state \<Rightarrow> 32 word \<times> state" where
  "hooked_getaddrinfo e node service hints res s =
     intercept_sync Darwin e None node service hints res s"

text \<open>
  \<^verbatim>\<open>getaddrinfo\<close> of the Linux file first finds the real resolver
  (\<open>find_real_getaddrinfo\<close> is the outer \<^verbatim>\<open>if\<close> up to the assignment), gives up when there
  is none, and goes on as the macOS entry point does:
  \<^verbatim>\<open>
      if (!real_getaddrinfo) {
          real_getaddrinfo = dlsym(RTLD_NEXT, "getaddrinfo");
          if (!real_getaddrinfo) {
              debug_log("ERROR: Could not find real getaddrinfo");
              return EAI_SYSTEM;
          }
      }
  \<close>
\<close>

definition find_real_getaddrinfo :: "env \<Rightarrow> state \<Rightarrow> state" where
  "find_real_getaddrinfo e s =
     (if real_getaddrinfo s = None
      then (let (r, s') = call_dlsym e RTLD_NEXT (Some ''getaddrinfo'') s
            in s'\<lparr>real_getaddrinfo := r\<rparr>)
      else s)"

definition getaddrinfo ::
  "env \<Rightarrow> char list option \<Rightarrow> char list option \<Rightarrow> addrinfo option \<Rightarrow> addr
    \<Rightarrow> state \<Rightarrow> 32 word \<times> state" where
  "getaddrinfo e node service hints res s =
     (let s1 = find_real_getaddrinfo e s
      in case real_getaddrinfo s1 of
           None \<Rightarrow> (EAI_SYSTEM Linux, s1)
         | Some p \<Rightarrow> intercept_sync Linux e (Some p) node service hints res s1)"

section \<open>Asynchronous capture and redirection (macOS file)\<close>

text \<open>
  The end of \<^verbatim>\<open>hooked_getaddrinfo_async_start\<close>, reached when no synthetic record was
  returned:
  \<^verbatim>\<open>
      if (real_async_start) {
          return real_async_start(port, node, service, hints, callback, context);
      }
      debug_log("ERROR: No real_async_start available");
      if (callback) {
          callback(-1, NULL, context);
      }
      return -1;
  \<close>
\<close>

definition async_real_or_fail ::
  "env \<Rightarrow> addr option \<Rightarrow> char list option \<Rightarrow> char list option \<Rightarrow> addrinfo option
    \<Rightarrow> addr option \<Rightarrow> addr option \<Rightarrow> state \<Rightarrow> 32 word \<times> state" where
  "async_real_or_fail e port node service hints callback context s =
     (case real_async_start s of
        Some f \<Rightarrow> call_async_start e f port node service hints callback context s
      | None \<Rightarrow>
          (- 1, (case callback of
                   None \<Rightarrow> s
                 | Some cb \<Rightarrow> call_callback e cb (- 1) None context s)))"

text \<open>
  \<^verbatim>\<open>
      if (is_localhost_domain(node)) {
          struct addrinfo *result = make_localhost_result(service, hints);
          if (result) {
              if (callback) {
                  callback(0, result, context);
              }
              if (port) *port = 0;
              return 0;
          }
      }
  \<close>
\<close>

definition hooked_getaddrinfo_async_start ::
  "env \<Rightarrow> addr option \<Rightarrow> char list option \<Rightarrow> char list option \<Rightarrow> addrinfo option
    \<Rightarrow> addr option \<Rightarrow> addr option \<Rightarrow> state \<Rightarrow> 32 word \<times> state" where
  "hooked_getaddrinfo_async_start e port node service hints callback context s =
     (if is_localhost_domain node \<noteq> 0 then
        (case make_localhost_result Darwin service hints (world s) of
           (Some result, w) \<Rightarrow>
             (let s1 = s\<lparr>world := w\<rparr>;
                  s2 = (case callback of
                          None \<Rightarrow> s1
                        | Some cb \<Rightarrow> call_callback e cb 0 (Some result) context s1);
                  s3 = (case port of
                          None \<Rightarrow> s2
                        | Some p \<Rightarrow> s2\<lparr>world := store p (Mach_port 0) (world s2)\<rparr>)
              in (0, s3))
         | (None, w) \<Rightarrow>
             async_real_or_fail e port node service hints callback context (s\<lparr>world := w\<rparr>))
      else async_real_or_fail e port node service hints callback context s)"

text \<open>
  What \<^verbatim>\<open>hooked_dlsym\<close> returns: the address of the replacement entry point, which is a
  static function of the library and so never an answer of the system's \<^verbatim>\<open>dlsym\<close>, or
  the system's answer.
  \<^verbatim>\<open>
  void* hooked_dlsym(void *handle, const char *symbol) {
      void *result = dlsym(handle, symbol);
      if (symbol && strcmp(symbol, "getaddrinfo_async_start") == 0) {
          if (result && !real_async_start) {
              real_async_start = (getaddrinfo_async_start_fn)result;
          }
          return (void*)hooked_getaddrinfo_async_start;
      }
      return result;
  }
  \<close>
\<close>

datatype code_ptr = Hooked_getaddrinfo_async_start | Extern addr

definition is_async_symbol :: "char list option \<Rightarrow> bool" where
  "is_async_symbol symbol =
     (case symbol of
        None \<Rightarrow> False
      | Some name \<Rightarrow> strcmp name ''getaddrinfo_async_start'' = 0)"

definition hooked_dlsym ::
  "env \<Rightarrow> int \<Rightarrow> char list option \<Rightarrow> state \<Rightarrow> code_ptr option \<times> state" where
  "hooked_dlsym e handle symbol s =
     (let (result, s1) = call_dlsym e handle symbol s
      in if is_async_symbol symbol then
           (Some Hooked_getaddrinfo_async_start,
            if result \<noteq> None \<and> real_async_start s1 = None
            then s1\<lparr>real_async_start := result\<rparr> else s1)
         else (map_option Extern result, s1))"

text \<open>A sequence of symbol lookups, each with its handle and its symbol name.\<close>

fun dlsym_run :: "env \<Rightarrow> (int \<times> char list option) list \<Rightarrow> state \<Rightarrow> state" where
  "dlsym_run e [] s = s"
| "dlsym_run e ((handle, symbol) # calls) s =
     dlsym_run e calls (snd (hooked_dlsym e handle symbol s))"

section \<open>Observations used to state the properties\<close>

text \<open>
  The record behind a pointer: the \<^verbatim>\<open>struct addrinfo\<close> at the address together with the
  \<^verbatim>\<open>struct sockaddr_in\<close> its \<open>ai_addr\<close> points to. \<open>fields_at\<close> is the same without the
  value of the \<open>ai_addr\<close> pointer itself, which is what two records allocated apart can
  agree on.
\<close>

definition endpoint_at :: "world \<Rightarrow> addr \<Rightarrow> (addrinfo \<times> sockaddr_in) option" where
  "endpoint_at w a =
     (case heap w a of
        Some (Addrinfo ai) \<Rightarrow>
          (case ai_addr ai of
             None \<Rightarrow> None
           | Some p \<Rightarrow>
               (case heap w p of
                  Some (Sockaddr_in sa) \<Rightarrow> Some (ai, sa)
                | _ \<Rightarrow> None))
      | _ \<Rightarrow> None)"

definition fields_at :: "world \<Rightarrow> addr \<Rightarrow> (addrinfo \<times> sockaddr_in) option" where
  "fields_at w a = map_option (\<lambda>(ai, sa). (ai\<lparr>ai_addr := None\<rparr>, sa)) (endpoint_at w a)"

text \<open>
  The three conditions under which an entry point answers with a synthetic record: the
  hostname is reserved, the hints do not ask for IPv6, and the builder returns a record
  in the world the call runs in. \<open>after_build\<close> is the world the call goes on in when it
  does not answer itself: the builder's failed attempt, if it made one, has used up
  allocations.
\<close>

definition builds :: "os \<Rightarrow> char list option \<Rightarrow> addrinfo option \<Rightarrow> world \<Rightarrow> bool" where
  "builds t service hints w = (fst (make_localhost_result t service hints w) \<noteq> None)"

definition synthesizes ::
  "os \<Rightarrow> char list option \<Rightarrow> char list option \<Rightarrow> addrinfo option \<Rightarrow> world \<Rightarrow> bool" where
  "synthesizes t node service hints w =
     (is_localhost_domain node \<noteq> 0 \<and> \<not> hints_want_inet6 t hints \<and> builds t service hints w)"

definition after_build ::
  "os \<Rightarrow> char list option \<Rightarrow> char list option \<Rightarrow> addrinfo option \<Rightarrow> state \<Rightarrow> state" where
  "after_build t node service hints s =
     (if is_localhost_domain node \<noteq> 0 \<and> \<not> hints_want_inet6 t hints
      then s\<lparr>world := snd (make_localhost_result t service hints (world s))\<rparr>
      else s)"

text \<open>
  The first address a sequence of lookups would capture: the answer of the first lookup
  of the asynchronous resolver's symbol that is not \<^verbatim>\<open>NULL\<close>.
\<close>

fun first_capture :: "env \<Rightarrow> (int \<times> char list option) list \<Rightarrow> world \<Rightarrow> addr option" where
  "first_capture e [] w = None"
| "first_capture e ((handle, symbol) # calls) w =
     (let (r, w') = libc_dlsym e handle symbol w
      in if is_async_symbol symbol \<and> r \<noteq> None then r else first_capture e calls w')"

text \<open>
  The answer an entry point gives by itself: status 0 and the builder's record left in the
  caller's \<^verbatim>\<open>*res\<close>. The statics and the trace stay as they were, so no call to code
  outside the library is made on the way.
\<close>

definition synthetic_answer ::
  "os \<Rightarrow> char list option \<Rightarrow> addrinfo option \<Rightarrow> addr \<Rightarrow> state \<Rightarrow> 32 word \<times> state" where
  "synthetic_answer t service hints res s =
     (case make_localhost_result t service hints (world s) of
        (result, w) \<Rightarrow> (0, s\<lparr>world := store res (Pointer result) w\<rparr>))"

text \<open>
  Two answers of a synchronous entry point, each left in the caller's \<^verbatim>\<open>*res\<close>, are
  records allocated apart that agree on every field.
\<close>

definition field_equal_answers :: "addr \<Rightarrow> state \<Rightarrow> addr \<Rightarrow> state \<Rightarrow> bool" where
  "field_equal_answers res1 s1 res2 s2 =
     (case (heap (world s1) res1, heap (world s2) res2) of
        (Some (Pointer (Some a1)), Some (Pointer (Some a2))) \<Rightarrow>
          a1 \<noteq> a2 \<and> fields_at (world s1) a1 \<noteq> None
          \<and> fields_at (world s1) a1 = fields_at (world s2) a2
      | _ \<Rightarrow> False)"

section \<open>Worlds and arguments for the examples\<close>

text \<open>
  A world with an empty heap in which the next four allocations succeed, and hints that
  set a flag and ask for datagram sockets (\<^verbatim>\<open>SOCK_DGRAM\<close> is 2) with no protocol.
\<close>

definition world0 :: world where
  "world0 = \<lparr>heap = Map.empty, brk = 100, calloc_fate = [True, True, True, True]\<rparr>"

definition hints0 :: addrinfo where
  "hints0 = zero_addrinfo\<lparr>ai_flags := 4, ai_socktype := 2\<rparr>"

text \<open>
  An environment in which the system's \<^verbatim>\<open>dlsym\<close> finds nothing and the resolvers fail
  with \<^verbatim>\<open>EAI_NONAME\<close> (8 on macOS, -2 on Linux), one in which \<^verbatim>\<open>dlsym\<close> answers each
  handle with an address of its own, and the state of a process that has just started.
\<close>

definition env0 :: env where
  "env0 =
     \<lparr>libc_getaddrinfo = (\<lambda>node service hints res w. (8, w)),
      fn_getaddrinfo = (\<lambda>p node service hints res w. (- 2, w)),
      fn_async_start = (\<lambda>f port node service hints callback context w. (0, w)),
      fn_callback = (\<lambda>cb status result context w. w),
      libc_dlsym = (\<lambda>handle symbol w. (None, w))\<rparr>"

definition env1 :: env where
  "env1 = env0\<lparr>libc_dlsym := (\<lambda>handle symbol w. (Some (nat (4096 + handle)), w))\<rparr>"

definition state0 :: state where
  "state0 = \<lparr>real_getaddrinfo = None, real_async_start = None, world = world0, trace = []\<rparr>"

text \<open>
  Hints that ask for IPv6 on macOS, and a process in which the real asynchronous entry
  point has been captured at address 4096.
\<close>

definition hints6 :: addrinfo where
  "hints6 = hints0\<lparr>ai_family := AF_INET6 Darwin\<rparr>"

definition state_captured :: state where
  "state_captured = state0\<lparr>real_async_start := Some 4096\<rparr>"

section \<open>Facts about C strings\<close>

lemma strlen_c_str: "strlen buf = length (c_str buf)"
  by (induction buf) (simp_all add: c_str_def)

lemma c_str_no_nul: "CHR 0x00 \<notin> set buf \<Longrightarrow> c_str buf = buf"
  by (induction buf) (auto simp: c_str_def)

lemma of_char_int_zero: "((of_char a :: int) = 0) = (a = CHR 0x00)"
proof -
  have "((of_char a :: int) = of_char (CHR 0x00)) = (a = CHR 0x00)"
    by (rule of_char_eq_iff)
  then show ?thesis by simp
qed

lemma strcmp_zero_iff: "(strcmp a b = 0) = (c_str a = c_str b)"
proof (induction a b rule: strcmp.induct)
  case 1
  show ?case by (simp add: c_str_def)
next
  case (2 b bs)
  show ?case by (simp add: c_str_def of_char_int_zero)
next
  case (3 a as)
  show ?case by (simp add: c_str_def of_char_int_zero)
next
  case (4 a as b bs)
  then show ?case by (auto simp: c_str_def of_char_int_zero)
qed

lemma c_str_drop:
  "n \<le> length (c_str buf) \<Longrightarrow> c_str (drop n buf) = drop n (c_str buf)"
proof (induction buf arbitrary: n)
  case Nil
  show ?case by (simp add: c_str_def)
next
  case (Cons c cs)
  show ?case
  proof (cases n)
    case 0
    then show ?thesis by simp
  next
    case (Suc m)
    with Cons.prems have nz: "c \<noteq> CHR 0x00" and m: "m \<le> length (c_str cs)"
      by (auto simp: c_str_def split: if_splits)
    from Cons.IH [OF m] Suc nz show ?thesis by (simp add: c_str_def)
  qed
qed

lemma c_str_suffix_literal: "c_str ''.localhost'' = ''.localhost''"
  by (simp add: c_str_def)

section \<open>The classifier's contract\<close>

text \<open>
  C1. \<open>is_localhost_domain\<close> returns true (a non-zero \<^verbatim>\<open>int\<close>, in fact 1) exactly when the
  hostname is not null, the string it denotes has at least 10 bytes and the last 10 of them
  are the bytes of \<^verbatim>\<open>.localhost\<close>, compared byte by byte. A null hostname and the empty
  string give 0.
\<close>

theorem is_localhost_domain_iff:
  "(is_localhost_domain hostname \<noteq> 0) =
     (case hostname of
        None \<Rightarrow> False
      | Some buf \<Rightarrow>
          10 \<le> length (c_str buf) \<and>
          drop (length (c_str buf) - 10) (c_str buf) = ''.localhost'')
   \<and> (is_localhost_domain hostname = 0 \<or> is_localhost_domain hostname = 1)
   \<and> is_localhost_domain None = 0
   \<and> is_localhost_domain (Some []) = 0"
proof -
  have none: "is_localhost_domain None = 0"
    by (simp add: is_localhost_domain_def)
  have empty: "is_localhost_domain (Some []) = 0"
    by (simp add: is_localhost_domain_def)
  have range: "is_localhost_domain hostname = 0 \<or> is_localhost_domain hostname = 1"
    by (simp add: is_localhost_domain_def Let_def split: option.split)
  have main: "(is_localhost_domain hostname \<noteq> 0) =
     (case hostname of
        None \<Rightarrow> False
      | Some buf \<Rightarrow>
          10 \<le> length (c_str buf) \<and>
          drop (length (c_str buf) - 10) (c_str buf) = ''.localhost'')"
  proof (cases hostname)
    case None
    then show ?thesis by (simp add: is_localhost_domain_def)
  next
    case (Some buf)
    show ?thesis
    proof (cases "10 \<le> length (c_str buf)")
      case False
      with Some show ?thesis
        by (simp add: is_localhost_domain_def strlen_c_str)
    next
      case True
      then have le: "length (c_str buf) - 10 \<le> length (c_str buf)" by simp
      have "(strcmp (drop (length (c_str buf) - 10) buf) ''.localhost'' = 0) =
            (drop (length (c_str buf) - 10) (c_str buf) = ''.localhost'')"
        unfolding strcmp_zero_iff c_str_drop [OF le] c_str_suffix_literal ..
      with Some True show ?thesis
        by (simp add: is_localhost_domain_def strlen_c_str)
    qed
  qed
  from main range none empty show ?thesis by blast
qed

theorem is_localhost_domain_iff_witness:
  "is_localhost_domain (Some ''foo.localhost'') \<noteq> 0
   \<and> is_localhost_domain (Some ''.localhost'') \<noteq> 0
   \<and> \<not> is_localhost_domain (Some ''foolocalhost'') \<noteq> 0
   \<and> \<not> is_localhost_domain (Some ''x.LOCALHOST'') \<noteq> 0
   \<and> \<not> is_localhost_domain (Some ''localhost'') \<noteq> 0
   \<and> \<not> is_localhost_domain (Some ''foo.localhost.'') \<noteq> 0"
proof -
  note at = is_localhost_domain_iff [THEN conjunct1]
  have a: "is_localhost_domain (Some ''foo.localhost'') \<noteq> 0"
    unfolding at [of "Some ''foo.localhost''"] by (simp add: c_str_def)
  have b: "is_localhost_domain (Some ''.localhost'') \<noteq> 0"
    unfolding at [of "Some ''.localhost''"] by (simp add: c_str_def)
  have c: "\<not> is_localhost_domain (Some ''foolocalhost'') \<noteq> 0"
    unfolding at [of "Some ''foolocalhost''"] by (simp add: c_str_def)
  have d: "\<not> is_localhost_domain (Some ''x.LOCALHOST'') \<noteq> 0"
    unfolding at [of "Some ''x.LOCALHOST''"] by (simp add: c_str_def)
  have e: "\<not> is_localhost_domain (Some ''localhost'') \<noteq> 0"
    unfolding at [of "Some ''localhost''"] by (simp add: c_str_def)
  have f: "\<not> is_localhost_domain (Some ''foo.localhost.'') \<noteq> 0"
    unfolding at [of "Some ''foo.localhost.''"] by (simp add: c_str_def)
  from a b c d e f show ?thesis by blast
qed

section \<open>Facts about the builder\<close>

lemma inet_pton4_loopback: "inet_pton4 ''127.0.0.1'' = Some [127, 0, 0, 1]"
  by (simp add: inet_pton4_def c_str_def octet_def isdigit_def)

lemma port_of_bytes_htons: "port_of_bytes (htons v) = unat v"
proof -
  have lo: "unat (ucast v :: 8 word) = unat v mod 256"
    by (simp add: unsigned_ucast_eq take_bit_eq_mod)
  have "unat v < 65536" using unsigned_less [of v, where ?'a = nat] by simp
  then have small: "unat v div 256 < 256" by simp
  have d: "unat (drop_bit 8 v) = unat v div 256"
    by (simp only: unat_drop_bit_eq) (simp add: drop_bit_eq_div)
  have "unat (ucast (drop_bit 8 v) :: 8 word) = unat (drop_bit 8 v) mod 256"
    unfolding unsigned_ucast_eq take_bit_eq_mod by simp
  with d small have hi: "unat (ucast (drop_bit 8 v) :: 8 word) = unat v div 256"
    by simp
  show ?thesis
    by (simp add: port_of_bytes_def htons_def lo hi)
qed

lemma unat_ucast_port: "unat (ucast (p :: 32 word) :: 16 word) = unat p mod 65536"
  by (simp add: unsigned_ucast_eq take_bit_eq_mod)

lemma unat_positive: "0 <s (p :: 32 word) \<Longrightarrow> unat p = nat (sint p)"
proof -
  assume "0 <s p"
  then have pos: "0 < sint p" by (simp add: word_sless_alt)
  have "sint p < 2 ^ 31" using sint_lt [of p] by simp
  with pos have "take_bit 32 (sint p) = sint p"
    by (simp add: take_bit_int_eq_self)
  then have "uint p = sint p" using uint_sint [of p] by simp
  then show ?thesis by (simp add: unat_eq_nat_uint)
qed

lemma make_localhost_result_eq:
  "make_localhost_result t service hints w =
     (case calloc_fate w of
        [] \<Rightarrow> (None, w)
      | False # rest \<Rightarrow> (None, w\<lparr>calloc_fate := rest\<rparr>)
      | [True] \<Rightarrow> (None, w\<lparr>heap := (heap w)(brk w := None), brk := Suc (brk w), calloc_fate := []\<rparr>)
      | True # False # rest \<Rightarrow> (None, w\<lparr>heap := (heap w)(brk w := None), brk := Suc (brk w), calloc_fate := rest\<rparr>)
      | True # True # rest \<Rightarrow>
          (Some (brk w),
           w\<lparr>heap := (heap w)(brk w \<mapsto> Addrinfo (fill_addrinfo hints (Suc (brk w)) zero_addrinfo),
                              Suc (brk w) \<mapsto> Sockaddr_in (fill_sockaddr_in t service zero_sockaddr_in)),
             brk := Suc (Suc (brk w)), calloc_fate := rest\<rparr>))"
  by (auto simp: make_localhost_result_def calloc_def free_def store_def fun_upd_twist
           split: list.splits bool.splits)

lemma make_localhost_result_Some:
  assumes "make_localhost_result t service hints w = (Some a, w')"
  shows "a = brk w"
    and "heap w' = (heap w)(brk w \<mapsto> Addrinfo (fill_addrinfo hints (Suc (brk w)) zero_addrinfo),
                            Suc (brk w) \<mapsto> Sockaddr_in (fill_sockaddr_in t service zero_sockaddr_in))"
    and "brk w' = Suc (Suc (brk w))"
    and "calloc_fate w = True # True # calloc_fate w'"
  using assms unfolding make_localhost_result_eq
  by (auto split: list.splits bool.splits)

lemma endpoint_at_built:
  assumes "make_localhost_result t service hints w = (Some a, w')"
  shows "endpoint_at w' a =
           Some (fill_addrinfo hints (Suc a) zero_addrinfo,
                 fill_sockaddr_in t service zero_sockaddr_in)"
proof -
  note b = make_localhost_result_Some [OF assms]
  have ai: "ai_addr (fill_addrinfo hints (Suc a) zero_addrinfo) = Some (Suc a)"
    by (simp add: fill_addrinfo_def Let_def)
  show ?thesis
    unfolding endpoint_at_def b(2) b(1) using ai b(1) by simp
qed

lemma fill_addrinfo_fields:
  "ai_family (fill_addrinfo hints p zero_addrinfo) = AF_INET"
  "ai_addrlen (fill_addrinfo hints p zero_addrinfo) = sizeof_sockaddr_in"
  "ai_addr (fill_addrinfo hints p zero_addrinfo) = Some p"
  "ai_next (fill_addrinfo hints p zero_addrinfo) = None"
  "ai_canonname (fill_addrinfo hints p zero_addrinfo) = None"
  "ai_flags (fill_addrinfo hints p zero_addrinfo) = (case hints of None \<Rightarrow> 0 | Some h \<Rightarrow> ai_flags h)"
  "ai_socktype (fill_addrinfo hints p zero_addrinfo) =
     (case hints of None \<Rightarrow> SOCK_STREAM
      | Some h \<Rightarrow> if ai_socktype h = 0 then SOCK_STREAM else ai_socktype h)"
  "ai_protocol (fill_addrinfo hints p zero_addrinfo) =
     (case hints of None \<Rightarrow> IPPROTO_TCP
      | Some h \<Rightarrow> if ai_protocol h = 0 then IPPROTO_TCP else ai_protocol h)"
  by (simp_all add: fill_addrinfo_def Let_def SOCK_STREAM_def IPPROTO_TCP_def split: option.split)

lemma fill_sockaddr_in_fields:
  "sin_family (fill_sockaddr_in t service zero_sockaddr_in) = ucast AF_INET"
  "sin_addr (fill_sockaddr_in t service zero_sockaddr_in) = [127, 0, 0, 1]"
  "sin_len (fill_sockaddr_in t service zero_sockaddr_in) = (if t = Darwin then 16 else 0)"
  "sin_zero (fill_sockaddr_in t service zero_sockaddr_in) = [0, 0, 0, 0, 0, 0, 0, 0]"
  "sin_port (fill_sockaddr_in t service zero_sockaddr_in) =
     (case service of None \<Rightarrow> [0, 0]
      | Some sv \<Rightarrow> htons (ucast (if 0 <s atoi sv then atoi sv else 0)))"
  by (simp_all add: fill_sockaddr_in_def Let_def inet_pton4_loopback zero_sockaddr_in_def
        sizeof_sockaddr_in_def split: option.split)

lemma fill_addrinfo_modulo_addr:
  "(fill_addrinfo hints p zero_addrinfo)\<lparr>ai_addr := None\<rparr> =
   (fill_addrinfo hints q zero_addrinfo)\<lparr>ai_addr := None\<rparr>"
  by (simp add: fill_addrinfo_def Let_def)

lemma atoi_70000: "atoi ''70000'' = 70000"
  by (simp add: atoi_def c_str_def isdigit_def isspace_def)

section \<open>The builder's contract\<close>

text \<open>
  C5. Whatever the service string and the hints, a record the builder returns is a single
  IPv4 record for 127.0.0.1: \<open>ai_family\<close> is \<^verbatim>\<open>AF_INET\<close> (and so not \<^verbatim>\<open>AF_INET6\<close>), the
  address bytes are 127, 0, 0, 1, and \<open>ai_next\<close> is null. The flags, the socket type and
  the protocol are those of the hints when hints are given (no flags otherwise), except
  that a socket type of 0 becomes \<^verbatim>\<open>SOCK_STREAM\<close> and a protocol of 0 becomes
  \<^verbatim>\<open>IPPROTO_TCP\<close>, each on its own.
\<close>

theorem make_localhost_result_fields:
  assumes "make_localhost_result t service hints w = (Some a, w')"
  shows "\<exists>ai sa. endpoint_at w' a = Some (ai, sa)
           \<and> ai_family ai = AF_INET \<and> ai_family ai \<noteq> AF_INET6 t
           \<and> sin_family sa = ucast AF_INET
           \<and> sin_addr sa = [127, 0, 0, 1]
           \<and> ai_addrlen ai = sizeof_sockaddr_in
           \<and> ai_next ai = None
           \<and> ai_flags ai = (case hints of None \<Rightarrow> 0 | Some h \<Rightarrow> ai_flags h)
           \<and> ai_socktype ai =
               (case hints of
                  None \<Rightarrow> SOCK_STREAM
                | Some h \<Rightarrow> if ai_socktype h = 0 then SOCK_STREAM else ai_socktype h)
           \<and> ai_protocol ai =
               (case hints of
                  None \<Rightarrow> IPPROTO_TCP
                | Some h \<Rightarrow> if ai_protocol h = 0 then IPPROTO_TCP else ai_protocol h)"
proof -
  have v4: "AF_INET \<noteq> AF_INET6 t"
    by (cases t) (simp_all add: AF_INET_def AF_INET6_def)
  show ?thesis
    unfolding endpoint_at_built [OF assms]
    using v4 by (simp add: fill_addrinfo_fields fill_sockaddr_in_fields)
qed

theorem make_localhost_result_fields_witness:
  "make_localhost_result Linux (Some ''8080'') (Some hints0) world0
     = (Some 100, snd (make_localhost_result Linux (Some ''8080'') (Some hints0) world0))
   \<and> (\<exists>ai sa. endpoint_at (snd (make_localhost_result Linux (Some ''8080'') (Some hints0) world0)) 100
                 = Some (ai, sa)
         \<and> ai_family ai = 2 \<and> sin_addr sa = [127, 0, 0, 1] \<and> ai_next ai = None
         \<and> ai_flags ai = 4 \<and> ai_socktype ai = 2 \<and> ai_protocol ai = 6)"
proof -
  have h: "make_localhost_result Linux (Some ''8080'') (Some hints0) world0
     = (Some 100, snd (make_localhost_result Linux (Some ''8080'') (Some hints0) world0))"
    by (simp add: make_localhost_result_eq world0_def)
  from make_localhost_result_fields [OF h] h show ?thesis
    by (auto simp: hints0_def zero_addrinfo_def AF_INET_def IPPROTO_TCP_def)
qed

text \<open>
  C6. The port of a record the builder returns, read from the two bytes of \<open>sin_port\<close> in
  network order, is \<^verbatim>\<open>atoi(service)\<close> modulo \<open>2 ^ 16\<close> when a service string is given and
  \<^verbatim>\<open>atoi\<close> of it is positive, and 0 otherwise (no service, or \<^verbatim>\<open>atoi\<close> gives 0 or a
  negative number, as it does for a string that is not a number). Nothing bounds the value
  from above: 70000 is stored as 4464.
\<close>

theorem make_localhost_result_port:
  assumes "make_localhost_result t service hints w = (Some a, w')"
  shows "\<exists>ai sa. endpoint_at w' a = Some (ai, sa)
           \<and> sin_port sa =
               (case service of
                  None \<Rightarrow> [0, 0]
                | Some sv \<Rightarrow> htons (ucast (if 0 <s atoi sv then atoi sv else 0)))
           \<and> port_of_bytes (sin_port sa) =
               (case service of
                  None \<Rightarrow> 0
                | Some sv \<Rightarrow>
                    if 0 < sint (atoi sv) then nat (sint (atoi sv)) mod 2 ^ 16 else 0)"
proof -
  have "port_of_bytes (sin_port (fill_sockaddr_in t service zero_sockaddr_in)) =
          (case service of
             None \<Rightarrow> 0
           | Some sv \<Rightarrow> if 0 < sint (atoi sv) then nat (sint (atoi sv)) mod 2 ^ 16 else 0)"
  proof (cases service)
    case None
    then show ?thesis
      by (simp add: fill_sockaddr_in_fields port_of_bytes_def)
  next
    case (Some sv)
    show ?thesis
    proof (cases "0 <s atoi sv")
      case True
      then have "0 < sint (atoi sv)" by (simp add: word_sless_alt)
      with True Some show ?thesis
        by (simp add: fill_sockaddr_in_fields port_of_bytes_htons unat_ucast_port unat_positive)
    next
      case False
      then have "\<not> 0 < sint (atoi sv)" by (simp add: word_sless_alt)
      with False Some show ?thesis
        by (simp add: fill_sockaddr_in_fields port_of_bytes_htons)
    qed
  qed
  then show ?thesis
    unfolding endpoint_at_built [OF assms]
    by (simp add: fill_sockaddr_in_fields)
qed

theorem make_localhost_result_port_witness:
  "make_localhost_result Darwin (Some ''70000'') None world0
     = (Some 100, snd (make_localhost_result Darwin (Some ''70000'') None world0))
   \<and> (\<exists>ai sa. endpoint_at (snd (make_localhost_result Darwin (Some ''70000'') None world0)) 100
                 = Some (ai, sa)
         \<and> sin_port sa = [17, 112] \<and> port_of_bytes (sin_port sa) = 4464)"
proof -
  have h: "make_localhost_result Darwin (Some ''70000'') None world0
     = (Some 100, snd (make_localhost_result Darwin (Some ''70000'') None world0))"
    by (simp add: make_localhost_result_eq world0_def)
  from make_localhost_result_port [OF h] h show ?thesis
    by (auto simp: atoi_70000 htons_def word_sless_alt)
qed

section \<open>Facts about the synchronous interception\<close>

lemma intercept_sync_eq:
  "intercept_sync t e f node service hints res s =
     (if synthesizes t node service hints (world s)
      then synthetic_answer t service hints res s
      else call_getaddrinfo e f node service hints res (after_build t node service hints s))"
  by (cases "make_localhost_result t service hints (world s)")
     (auto simp: intercept_sync_def synthesizes_def builds_def after_build_def
        synthetic_answer_def split: option.splits)

lemma answer_fields:
  assumes b: "make_localhost_result t service hints w = (Some a, w')" and r: "res < brk w"
  shows "heap (store res (Pointer (Some a)) w') res = Some (Pointer (Some a))"
    and "brk (store res (Pointer (Some a)) w') = Suc (Suc (brk w))"
    and "fields_at (store res (Pointer (Some a)) w') a =
           Some ((fill_addrinfo hints 0 zero_addrinfo)\<lparr>ai_addr := None\<rparr>,
                 fill_sockaddr_in t service zero_sockaddr_in)"
proof -
  note m = make_localhost_result_Some [OF b]
  show "heap (store res (Pointer (Some a)) w') res = Some (Pointer (Some a))"
    by (simp add: store_def)
  show "brk (store res (Pointer (Some a)) w') = Suc (Suc (brk w))"
    by (simp add: store_def m(3))
  from r m(1) have ne: "res \<noteq> a" "res \<noteq> Suc a" by simp_all
  have "endpoint_at (store res (Pointer (Some a)) w') a = endpoint_at w' a"
    using ne m(1)
    by (simp add: endpoint_at_def store_def m(2) fill_addrinfo_fields)
  then show "fields_at (store res (Pointer (Some a)) w') a =
           Some ((fill_addrinfo hints 0 zero_addrinfo)\<lparr>ai_addr := None\<rparr>,
                 fill_sockaddr_in t service zero_sockaddr_in)"
    by (simp add: fields_at_def endpoint_at_built [OF b]
          fill_addrinfo_modulo_addr [of hints "Suc a" 0])
qed

lemma intercept_sync_twice:
  assumes syn1: "synthesizes t node service hints (world s)"
      and syn2: "synthesizes t node service hints
                   (world (snd (intercept_sync t e f node service hints res1 s)))"
      and r1: "res1 < brk (world s)" and r2: "res2 < brk (world s)"
  shows "fst (intercept_sync t e f node service hints res1 s) = 0
       \<and> fst (intercept_sync t e f node service hints res2
                (snd (intercept_sync t e f node service hints res1 s))) = 0
       \<and> field_equal_answers res1 (snd (intercept_sync t e f node service hints res1 s))
            res2 (snd (intercept_sync t e f node service hints res2
                        (snd (intercept_sync t e f node service hints res1 s))))"
proof -
  obtain a1 w1 where b1: "make_localhost_result t service hints (world s) = (Some a1, w1)"
    using syn1 by (cases "make_localhost_result t service hints (world s)")
                  (auto simp: synthesizes_def builds_def)
  define s1 where "s1 = s\<lparr>world := store res1 (Pointer (Some a1)) w1\<rparr>"
  have c1: "intercept_sync t e f node service hints res1 s = (0, s1)"
    using syn1 b1 by (simp add: intercept_sync_eq synthetic_answer_def s1_def)
  have w_s1: "world s1 = store res1 (Pointer (Some a1)) w1" by (simp add: s1_def)
  obtain a2 w2 where b2: "make_localhost_result t service hints (world s1) = (Some a2, w2)"
    using syn2 unfolding c1 by (cases "make_localhost_result t service hints (world s1)")
                  (auto simp: synthesizes_def builds_def)
  define s2 where "s2 = s1\<lparr>world := store res2 (Pointer (Some a2)) w2\<rparr>"
  have c2: "intercept_sync t e f node service hints res2 s1 = (0, s2)"
    using syn2 b2 unfolding c1 by (simp add: intercept_sync_eq synthetic_answer_def s2_def)
  have w_s2: "world s2 = store res2 (Pointer (Some a2)) w2" by (simp add: s2_def)
  note f1 = answer_fields [OF b1 r1]
  have r2': "res2 < brk (world s1)" using r2 by (simp add: w_s1 f1(2))
  note f2 = answer_fields [OF b2 r2']
  have a1: "a1 = brk (world s)" by (rule make_localhost_result_Some(1) [OF b1])
  have a2: "a2 = brk (world s1)" by (rule make_localhost_result_Some(1) [OF b2])
  have "brk (world s1) = Suc (Suc (brk (world s)))" using f1(2) by (simp add: w_s1)
  then have ne: "a1 \<noteq> a2" unfolding a1 a2 by simp
  have "field_equal_answers res1 s1 res2 s2"
    using ne by (simp add: field_equal_answers_def w_s1 w_s2 f1 f2)
  then show ?thesis by (simp add: c1 c2)
qed

lemma reserved_app: "is_localhost_domain (Some ''app.localhost'') = 1"
  by (simp add: is_localhost_domain_def)

lemma not_reserved_example: "is_localhost_domain (Some ''example.com'') = 0"
  by (simp add: is_localhost_domain_def)

section \<open>The synchronous entry points' contract\<close>

text \<open>
  C2, as amended. \<^verbatim>\<open>hooked_getaddrinfo\<close> (macOS): when the hostname is reserved, the
  hints do not ask for IPv6 and the builder returns a record, the call returns 0 with that
  record in \<^verbatim>\<open>*res\<close> and calls nothing else (the trace is unchanged); in every other case
  it is the call of the real resolver with the same four arguments, whose status and effects
  are returned as they are. \<^verbatim>\<open>getaddrinfo\<close> (Linux) does the same once the real resolver's
  address is known, stored by an earlier call or found now by
  \<^verbatim>\<open>dlsym(RTLD_NEXT, "getaddrinfo")\<close>; when that lookup gives \<^verbatim>\<open>NULL\<close> it returns
  \<^verbatim>\<open>EAI_SYSTEM\<close> at once.
\<close>

theorem sync_entry_points:
  "hooked_getaddrinfo e node service hints res s =
     (if synthesizes Darwin node service hints (world s)
      then synthetic_answer Darwin service hints res s
      else call_getaddrinfo e None node service hints res
             (after_build Darwin node service hints s))
   \<and> getaddrinfo e node service hints res s =
     (let s1 = find_real_getaddrinfo e s
      in case real_getaddrinfo s1 of
           None \<Rightarrow> (EAI_SYSTEM Linux, s1)
         | Some p \<Rightarrow>
             if synthesizes Linux node service hints (world s1)
             then synthetic_answer Linux service hints res s1
             else call_getaddrinfo e (Some p) node service hints res
                    (after_build Linux node service hints s1))
   \<and> fst (synthetic_answer t service hints res s) = 0
   \<and> trace (snd (synthetic_answer t service hints res s)) = trace s
   \<and> heap (world (snd (synthetic_answer t service hints res s))) res =
       Some (Pointer (fst (make_localhost_result t service hints (world s))))"
proof -
  have darwin: "hooked_getaddrinfo e node service hints res s =
     (if synthesizes Darwin node service hints (world s)
      then synthetic_answer Darwin service hints res s
      else call_getaddrinfo e None node service hints res
             (after_build Darwin node service hints s))"
    by (simp add: hooked_getaddrinfo_def intercept_sync_eq)
  have linux: "getaddrinfo e node service hints res s =
     (let s1 = find_real_getaddrinfo e s
      in case real_getaddrinfo s1 of
           None \<Rightarrow> (EAI_SYSTEM Linux, s1)
         | Some p \<Rightarrow>
             if synthesizes Linux node service hints (world s1)
             then synthetic_answer Linux service hints res s1
             else call_getaddrinfo e (Some p) node service hints res
                    (after_build Linux node service hints s1))"
    by (simp add: getaddrinfo_def intercept_sync_eq Let_def split: option.split)
  have answer: "fst (synthetic_answer t service hints res s) = 0
   \<and> trace (snd (synthetic_answer t service hints res s)) = trace s
   \<and> heap (world (snd (synthetic_answer t service hints res s))) res =
       Some (Pointer (fst (make_localhost_result t service hints (world s))))"
    by (cases "make_localhost_result t service hints (world s)")
       (simp add: synthetic_answer_def store_def)
  from darwin linux answer show ?thesis by blast
qed

lemma synthesizes_app: "synthesizes t (Some ''app.localhost'') (Some ''8080'') None world0"
  by (simp add: synthesizes_def builds_def reserved_app hints_want_inet6_def
        make_localhost_result_eq world0_def)

lemma find_real_getaddrinfo_env0:
  "find_real_getaddrinfo env0 state0 =
     state0\<lparr>trace := [Ev_dlsym RTLD_NEXT (Some ''getaddrinfo'')]\<rparr>"
  by (simp add: find_real_getaddrinfo_def call_dlsym_def env0_def state0_def)

text \<open>
  C2 as stated fails for the Linux entry point: in a process where the lookup of the real
  resolver finds nothing, a reserved hostname whose record could be built is answered with
  \<^verbatim>\<open>EAI_SYSTEM\<close>, not 0, and a hostname that is not reserved is answered with
  \<^verbatim>\<open>EAI_SYSTEM\<close> without any call of a resolver: the only call made is the lookup.
\<close>

theorem sync_forward_counterexample:
  "synthesizes Linux (Some ''app.localhost'') (Some ''8080'') None world0
   \<and> getaddrinfo env0 (Some ''app.localhost'') (Some ''8080'') None 1 state0
       = (EAI_SYSTEM Linux, state0\<lparr>trace := [Ev_dlsym RTLD_NEXT (Some ''getaddrinfo'')]\<rparr>)
   \<and> EAI_SYSTEM Linux \<noteq> 0
   \<and> \<not> synthesizes Linux (Some ''example.com'') None None world0
   \<and> getaddrinfo env0 (Some ''example.com'') None None 1 state0
       = (EAI_SYSTEM Linux, state0\<lparr>trace := [Ev_dlsym RTLD_NEXT (Some ''getaddrinfo'')]\<rparr>)"
proof -
  have g: "getaddrinfo env0 node service hints 1 state0
       = (EAI_SYSTEM Linux, state0\<lparr>trace := [Ev_dlsym RTLD_NEXT (Some ''getaddrinfo'')]\<rparr>)"
    for node service hints
    by (simp add: getaddrinfo_def find_real_getaddrinfo_env0) (simp add: state0_def)
  have e: "EAI_SYSTEM Linux \<noteq> 0" by (simp add: EAI_SYSTEM_def)
  have n: "\<not> synthesizes Linux (Some ''example.com'') None None world0"
    by (simp add: synthesizes_def not_reserved_example)
  from synthesizes_app g e n show ?thesis by blast
qed

theorem sync_entry_points_witness:
  "hooked_getaddrinfo env0 (Some ''app.localhost'') (Some ''8080'')
       (Some (hints0\<lparr>ai_family := AF_INET6 Darwin\<rparr>)) 1 state0
     = (8, state0\<lparr>trace := [Ev_getaddrinfo None (Some ''app.localhost'') (Some ''8080'')
                                 (Some (hints0\<lparr>ai_family := AF_INET6 Darwin\<rparr>)) 1]\<rparr>)
   \<and> fst (hooked_getaddrinfo env0 (Some ''app.localhost'') (Some ''8080'') None 1 state0) = 0
   \<and> trace (snd (hooked_getaddrinfo env0 (Some ''app.localhost'') (Some ''8080'') None 1 state0))
       = []"
proof -
  let ?h6 = "Some (hints0\<lparr>ai_family := AF_INET6 Darwin\<rparr>)"
  have six: "\<not> synthesizes Darwin (Some ''app.localhost'') (Some ''8080'') ?h6 (world state0)"
    by (simp add: synthesizes_def hints_want_inet6_def)
  have after: "after_build Darwin (Some ''app.localhost'') (Some ''8080'') ?h6 state0 = state0"
    by (simp add: after_build_def hints_want_inet6_def)
  have four: "synthesizes Darwin (Some ''app.localhost'') (Some ''8080'') None (world state0)"
    by (simp add: state0_def synthesizes_app)
  note six_call = sync_entry_points [where e = env0 and node = "Some ''app.localhost''"
      and service = "Some ''8080''" and hints = ?h6 and res = 1 and s = state0,
      THEN conjunct1]
  from six_call six after
  have "hooked_getaddrinfo env0 (Some ''app.localhost'') (Some ''8080'') ?h6 1 state0
     = call_getaddrinfo env0 None (Some ''app.localhost'') (Some ''8080'') ?h6 1 state0"
    by simp
  then have a: "hooked_getaddrinfo env0 (Some ''app.localhost'') (Some ''8080'') ?h6 1 state0
     = (8, state0\<lparr>trace := [Ev_getaddrinfo None (Some ''app.localhost'') (Some ''8080'') ?h6 1]\<rparr>)"
    by (simp add: call_getaddrinfo_def env0_def state0_def)
  note four_call = sync_entry_points [where e = env0 and node = "Some ''app.localhost''"
      and service = "Some ''8080''" and hints = None and res = 1 and s = state0
      and t = Darwin]
  from four_call four
  have b: "fst (hooked_getaddrinfo env0 (Some ''app.localhost'') (Some ''8080'') None 1 state0) = 0
   \<and> trace (snd (hooked_getaddrinfo env0 (Some ''app.localhost'') (Some ''8080'') None 1 state0))
       = trace state0"
    by simp
  from a b show ?thesis by (simp add: state0_def)
qed

text \<open>
  C9. Two calls of the synchronous entry point, one after the other, with the same reserved
  hostname, service and hints, both answered with a synthetic record: both return 0, and
  the two records left in \<^verbatim>\<open>*res\<close> are at different addresses and equal in every field
  of the \<^verbatim>\<open>addrinfo\<close> (flags, family, socket type, protocol, address length, canonical name,
  next) and of the socket address behind it (family, port, address). The caller's two
  \<^verbatim>\<open>res\<close> variables exist before the calls, so they lie below the allocator's next
  address. On Linux the real resolver must have been found, or the call ends before it
  builds anything.
\<close>

theorem sync_twice_field_equal:
  "(let h1 = hooked_getaddrinfo e node service hints res1 s;
        h2 = hooked_getaddrinfo e node service hints res2 (snd h1)
    in synthesizes Darwin node service hints (world s)
       \<and> synthesizes Darwin node service hints (world (snd h1))
       \<and> res1 < brk (world s) \<and> res2 < brk (world s)
       \<longrightarrow> fst h1 = 0 \<and> fst h2 = 0 \<and> field_equal_answers res1 (snd h1) res2 (snd h2))
   \<and>
   (let s0 = find_real_getaddrinfo e s;
        g1 = getaddrinfo e node service hints res1 s;
        g2 = getaddrinfo e node service hints res2 (snd g1)
    in real_getaddrinfo s0 \<noteq> None
       \<and> synthesizes Linux node service hints (world s0)
       \<and> synthesizes Linux node service hints (world (snd g1))
       \<and> res1 < brk (world s0) \<and> res2 < brk (world s0)
       \<longrightarrow> fst g1 = 0 \<and> fst g2 = 0 \<and> field_equal_answers res1 (snd g1) res2 (snd g2))"
proof -
  have darwin: "(let h1 = hooked_getaddrinfo e node service hints res1 s;
        h2 = hooked_getaddrinfo e node service hints res2 (snd h1)
    in synthesizes Darwin node service hints (world s)
       \<and> synthesizes Darwin node service hints (world (snd h1))
       \<and> res1 < brk (world s) \<and> res2 < brk (world s)
       \<longrightarrow> fst h1 = 0 \<and> fst h2 = 0 \<and> field_equal_answers res1 (snd h1) res2 (snd h2))"
    unfolding Let_def hooked_getaddrinfo_def
    using intercept_sync_twice [of Darwin node service hints s e None res1 res2]
    by blast
  have linux: "(let s0 = find_real_getaddrinfo e s;
        g1 = getaddrinfo e node service hints res1 s;
        g2 = getaddrinfo e node service hints res2 (snd g1)
    in real_getaddrinfo s0 \<noteq> None
       \<and> synthesizes Linux node service hints (world s0)
       \<and> synthesizes Linux node service hints (world (snd g1))
       \<and> res1 < brk (world s0) \<and> res2 < brk (world s0)
       \<longrightarrow> fst g1 = 0 \<and> fst g2 = 0 \<and> field_equal_answers res1 (snd g1) res2 (snd g2))"
  proof (cases "real_getaddrinfo (find_real_getaddrinfo e s)")
    case None
    then show ?thesis by (simp add: Let_def)
  next
    case (Some p)
    define s0 where "s0 = find_real_getaddrinfo e s"
    have p: "real_getaddrinfo s0 = Some p" using Some by (simp add: s0_def)
    have g1: "getaddrinfo e node service hints res1 s =
                intercept_sync Linux e (Some p) node service hints res1 s0"
      using p by (simp add: getaddrinfo_def s0_def)
    have keep: "real_getaddrinfo (snd (intercept_sync Linux e (Some p) node service hints res1 s0))
                  = Some p"
      if "synthesizes Linux node service hints (world s0)"
      using that p
      by (cases "make_localhost_result Linux service hints (world s0)")
         (simp add: intercept_sync_eq synthetic_answer_def)
    have g2: "getaddrinfo e node service hints res2
                (snd (intercept_sync Linux e (Some p) node service hints res1 s0)) =
              intercept_sync Linux e (Some p) node service hints res2
                (snd (intercept_sync Linux e (Some p) node service hints res1 s0))"
      if "synthesizes Linux node service hints (world s0)"
      using keep [OF that]
      by (simp add: getaddrinfo_def find_real_getaddrinfo_def)
    show ?thesis
      unfolding Let_def g1 s0_def [symmetric]
      using intercept_sync_twice [of Linux node service hints s0 e "Some p" res1 res2] g2
      by auto
  qed
  from darwin linux show ?thesis by blast
qed

lemma hooked_first_call:
  "hooked_getaddrinfo env0 (Some ''app.localhost'') (Some ''8080'') None 7 state0 =
     (0, state0\<lparr>world := store 7 (Pointer (Some 100))
            (snd (make_localhost_result Darwin (Some ''8080'') None world0))\<rparr>)"
  by (simp add: hooked_getaddrinfo_def intercept_sync_def reserved_app hints_want_inet6_def
        make_localhost_result_eq world0_def state0_def)

lemma find_real_getaddrinfo_env1:
  "find_real_getaddrinfo env1 state0 =
     state0\<lparr>real_getaddrinfo := Some 4095,
            trace := [Ev_dlsym RTLD_NEXT (Some ''getaddrinfo'')]\<rparr>"
  by (simp add: find_real_getaddrinfo_def call_dlsym_def env1_def env0_def state0_def
        RTLD_NEXT_def)

lemma linux_first_call:
  "getaddrinfo env1 (Some ''app.localhost'') (Some ''8080'') None 7 state0 =
     (0, state0\<lparr>real_getaddrinfo := Some 4095,
            trace := [Ev_dlsym RTLD_NEXT (Some ''getaddrinfo'')],
            world := store 7 (Pointer (Some 100))
              (snd (make_localhost_result Linux (Some ''8080'') None world0))\<rparr>)"
  by (simp add: getaddrinfo_def find_real_getaddrinfo_env1 intercept_sync_def reserved_app
        hints_want_inet6_def)
     (simp add: make_localhost_result_eq world0_def state0_def)

lemma synthesizes_app_again:
  "synthesizes t (Some ''app.localhost'') (Some ''8080'') None
     (store 7 (Pointer (Some 100)) (snd (make_localhost_result t (Some ''8080'') None world0)))"
  by (simp add: synthesizes_def builds_def reserved_app hints_want_inet6_def
        make_localhost_result_eq world0_def store_def)

theorem sync_twice_field_equal_witness:
  "(let h1 = hooked_getaddrinfo env0 (Some ''app.localhost'') (Some ''8080'') None 7 state0;
        h2 = hooked_getaddrinfo env0 (Some ''app.localhost'') (Some ''8080'') None 8 (snd h1)
    in synthesizes Darwin (Some ''app.localhost'') (Some ''8080'') None (world state0)
       \<and> synthesizes Darwin (Some ''app.localhost'') (Some ''8080'') None (world (snd h1))
       \<and> 7 < brk (world state0) \<and> 8 < brk (world state0)
       \<and> fst h1 = 0 \<and> fst h2 = 0 \<and> field_equal_answers 7 (snd h1) 8 (snd h2))
   \<and>
   (let s0 = find_real_getaddrinfo env1 state0;
        g1 = getaddrinfo env1 (Some ''app.localhost'') (Some ''8080'') None 7 state0;
        g2 = getaddrinfo env1 (Some ''app.localhost'') (Some ''8080'') None 8 (snd g1)
    in real_getaddrinfo s0 \<noteq> None
       \<and> synthesizes Linux (Some ''app.localhost'') (Some ''8080'') None (world s0)
       \<and> synthesizes Linux (Some ''app.localhost'') (Some ''8080'') None (world (snd g1))
       \<and> 7 < brk (world s0) \<and> 8 < brk (world s0)
       \<and> fst g1 = 0 \<and> fst g2 = 0 \<and> field_equal_answers 7 (snd g1) 8 (snd g2))"
proof -
  have d1: "synthesizes Darwin (Some ''app.localhost'') (Some ''8080'') None (world state0)"
    by (simp add: state0_def synthesizes_app)
  have d2: "synthesizes Darwin (Some ''app.localhost'') (Some ''8080'') None
     (world (snd (hooked_getaddrinfo env0 (Some ''app.localhost'') (Some ''8080'') None 7 state0)))"
    by (simp add: hooked_first_call synthesizes_app_again)
  have d3: "7 < brk (world state0) \<and> 8 < brk (world state0)"
    by (simp add: state0_def world0_def)
  have l0: "real_getaddrinfo (find_real_getaddrinfo env1 state0) \<noteq> None"
    by (simp add: find_real_getaddrinfo_env1)
  have l1: "synthesizes Linux (Some ''app.localhost'') (Some ''8080'') None
              (world (find_real_getaddrinfo env1 state0))"
    by (simp add: find_real_getaddrinfo_env1) (simp add: state0_def synthesizes_app)
  have l2: "synthesizes Linux (Some ''app.localhost'') (Some ''8080'') None
     (world (snd (getaddrinfo env1 (Some ''app.localhost'') (Some ''8080'') None 7 state0)))"
    by (simp add: linux_first_call synthesizes_app_again)
  have l3: "7 < brk (world (find_real_getaddrinfo env1 state0))
          \<and> 8 < brk (world (find_real_getaddrinfo env1 state0))"
    by (simp add: find_real_getaddrinfo_env1) (simp add: state0_def world0_def)
  note darwin = sync_twice_field_equal [where e = env0 and node = "Some ''app.localhost''"
      and service = "Some ''8080''" and hints = None and ?res1.0 = 7 and ?res2.0 = 8
      and s = state0, THEN conjunct1]
  note linux = sync_twice_field_equal [where e = env1 and node = "Some ''app.localhost''"
      and service = "Some ''8080''" and hints = None and ?res1.0 = 7 and ?res2.0 = 8
      and s = state0, THEN conjunct2]
  from darwin d1 d2 d3 linux l0 l1 l2 l3 show ?thesis
    unfolding Let_def by blast
qed

section \<open>Facts about the replacement entry point\<close>

lemma async_real_or_fail_uncaptured:
  assumes "real_async_start s = None"
  shows "async_real_or_fail e port node service hints callback context s =
           (- 1, (case callback of
                    None \<Rightarrow> s
                  | Some cb \<Rightarrow> call_callback e cb (- 1) None context s))"
  using assms by (simp add: async_real_or_fail_def)

lemma async_start_eq:
  "hooked_getaddrinfo_async_start e port node service hints callback context s =
     (if is_localhost_domain node \<noteq> 0 \<and> builds Darwin service hints (world s)
      then (case make_localhost_result Darwin service hints (world s) of
              (result, w) \<Rightarrow>
                (let s1 = s\<lparr>world := w\<rparr>;
                     s2 = (case callback of
                             None \<Rightarrow> s1
                           | Some cb \<Rightarrow> call_callback e cb 0 result context s1);
                     s3 = (case port of
                             None \<Rightarrow> s2
                           | Some p \<Rightarrow> s2\<lparr>world := store p (Mach_port 0) (world s2)\<rparr>)
                 in (0, s3)))
      else async_real_or_fail e port node service hints callback context
             (if is_localhost_domain node \<noteq> 0
              then s\<lparr>world := snd (make_localhost_result Darwin service hints (world s))\<rparr>
              else s))"
  by (cases "make_localhost_result Darwin service hints (world s)")
     (auto simp: hooked_getaddrinfo_async_start_def builds_def split: option.splits)

lemma async_degraded_fallback:
  assumes nosynth: "\<not> (is_localhost_domain node \<noteq> 0 \<and> builds Darwin service hints (world s))"
      and uncaptured: "real_async_start s = None"
  shows "let r = hooked_getaddrinfo_async_start e port node service hints callback context s
         in fst r = - 1 \<and> fst r \<noteq> 0
            \<and> trace (snd r) =
                trace s @ (case callback of
                             None \<Rightarrow> []
                           | Some cb \<Rightarrow> [Ev_callback cb (- 1) None context])
            \<and> real_async_start (snd r) = None"
proof -
  define s' where "s' = (if is_localhost_domain node \<noteq> 0
              then s\<lparr>world := snd (make_localhost_result Darwin service hints (world s))\<rparr>
              else s)"
  have u: "real_async_start s' = None" and t: "trace s' = trace s"
    using uncaptured by (simp_all add: s'_def)
  have "hooked_getaddrinfo_async_start e port node service hints callback context s =
          async_real_or_fail e port node service hints callback context s'"
    using nosynth unfolding async_start_eq s'_def by auto
  then show ?thesis
    using u t
    by (simp add: async_real_or_fail_uncaptured call_callback_def Let_def split: option.split)
qed

lemma build_app:
  "make_localhost_result t (Some ''8080'') hints world0 =
     (Some 100, snd (make_localhost_result t (Some ''8080'') hints world0))"
  by (simp add: make_localhost_result_eq world0_def)

section \<open>The replacement entry point's contract\<close>

text \<open>
  C7. A call of \<^verbatim>\<open>hooked_getaddrinfo_async_start\<close> with a reserved hostname and a callback
  that is not null, in which the builder returns a record: the function returns 0; the one
  call it makes to code outside the library is the callback, once, before it returns, with
  status 0, the record (not null) and the caller's context; then, when \<^verbatim>\<open>port\<close> is not
  null, \<^verbatim>\<open>*port\<close> is set to 0 (with a null \<^verbatim>\<open>port\<close> there is nothing to set). The captured
  entry point is neither called nor changed.
\<close>

theorem async_start_synthetic:
  assumes reserved: "is_localhost_domain node \<noteq> 0"
      and built: "make_localhost_result Darwin service hints (world s) = (Some a, w)"
  shows "let r = hooked_getaddrinfo_async_start e port node service hints (Some cb) context s;
             wc = fn_callback e cb 0 (Some a) context w
         in fst r = 0
            \<and> trace (snd r) = trace s @ [Ev_callback cb 0 (Some a) context]
            \<and> world (snd r) = (case port of None \<Rightarrow> wc | Some p \<Rightarrow> store p (Mach_port 0) wc)
            \<and> (case port of None \<Rightarrow> True | Some p \<Rightarrow> heap (world (snd r)) p = Some (Mach_port 0))
            \<and> real_async_start (snd r) = real_async_start s"
  using reserved built
  by (simp add: hooked_getaddrinfo_async_start_def call_callback_def store_def Let_def
        split: option.split)


theorem async_start_synthetic_witness:
  "is_localhost_domain (Some ''app.localhost'') \<noteq> 0
   \<and> make_localhost_result Darwin (Some ''8080'') None (world state0) =
       (Some 100, snd (make_localhost_result Darwin (Some ''8080'') None world0))
   \<and> (let r = hooked_getaddrinfo_async_start env0 (Some 9) (Some ''app.localhost'')
                 (Some ''8080'') None (Some 500) None state0
       in fst r = 0 \<and> trace (snd r) = [Ev_callback 500 0 (Some 100) None]
          \<and> heap (world (snd r)) 9 = Some (Mach_port 0))"
proof -
  have r: "is_localhost_domain (Some ''app.localhost'') \<noteq> 0"
    by (simp add: reserved_app)
  have b: "make_localhost_result Darwin (Some ''8080'') None (world state0) =
       (Some 100, snd (make_localhost_result Darwin (Some ''8080'') None world0))"
    using build_app [of Darwin None] by (simp add: state0_def)
  have t: "trace state0 = []" by (simp add: state0_def)
  from async_start_synthetic [OF r b, of env0 "Some 9" 500 None] r b
  show ?thesis by (simp add: Let_def t store_def)
qed


text \<open>
  C3 does not hold of the code. \<^verbatim>\<open>hooked_getaddrinfo_async_start\<close> never reads
  \<open>ai_family\<close>: called with a reserved hostname and hints that ask for IPv6, after the real
  entry point has been captured at 4096, it builds the IPv4 record for 127.0.0.1, hands it
  to the callback with status 0 and returns 0. The call the claim asks for, the captured
  entry point with the same arguments, is not made; \<^verbatim>\<open>hooked_getaddrinfo\<close>, given the same
  hostname, service and hints, does forward to the real resolver.
\<close>

theorem async_start_inet6_synthesizes:
  "hints_want_inet6 Darwin (Some hints6)
   \<and> real_async_start state_captured = Some 4096
   \<and> (let r = hooked_getaddrinfo_async_start env0 (Some 9) (Some ''app.localhost'')
                 (Some ''8080'') (Some hints6) (Some 500) None state_captured
       in fst r = 0
          \<and> trace (snd r) = [Ev_callback 500 0 (Some 100) None]
          \<and> map_option (\<lambda>(ai, sa). (ai_family ai, sin_addr sa)) (endpoint_at (world (snd r)) 100)
              = Some (AF_INET, [127, 0, 0, 1]))
   \<and> call_async_start env0 4096 (Some 9) (Some ''app.localhost'') (Some ''8080'')
        (Some hints6) (Some 500) None state_captured
       = (0, state_captured\<lparr>trace := [Ev_async_start 4096 (Some 9) (Some ''app.localhost'')
                                         (Some ''8080'') (Some hints6) (Some 500) None]\<rparr>)
   \<and> hooked_getaddrinfo env0 (Some ''app.localhost'') (Some ''8080'') (Some hints6) 7
        state_captured
       = (8, state_captured\<lparr>trace := [Ev_getaddrinfo None (Some ''app.localhost'')
                                         (Some ''8080'') (Some hints6) 7]\<rparr>)"
proof -
  have six: "hints_want_inet6 Darwin (Some hints6)"
    by (simp add: hints_want_inet6_def hints6_def)
  have cap: "real_async_start state_captured = Some 4096"
    by (simp add: state_captured_def)
  have w: "world state_captured = world0" and t: "trace state_captured = []"
    by (simp_all add: state_captured_def state0_def)
  have r: "is_localhost_domain (Some ''app.localhost'') \<noteq> 0"
    by (simp add: reserved_app)
  have b: "make_localhost_result Darwin (Some ''8080'') (Some hints6) (world state_captured) =
       (Some 100, snd (make_localhost_result Darwin (Some ''8080'') (Some hints6) world0))"
    using build_app [of Darwin "Some hints6"] by (simp add: w)
  have rec: "endpoint_at (store 9 (Mach_port 0)
               (snd (make_localhost_result Darwin (Some ''8080'') (Some hints6) world0))) 100
             = endpoint_at (snd (make_localhost_result Darwin (Some ''8080'') (Some hints6) world0)) 100"
    by (simp add: endpoint_at_def store_def make_localhost_result_eq world0_def
          fill_addrinfo_fields)
  have async: "let r = hooked_getaddrinfo_async_start env0 (Some 9) (Some ''app.localhost'')
                 (Some ''8080'') (Some hints6) (Some 500) None state_captured
       in fst r = 0
          \<and> trace (snd r) = [Ev_callback 500 0 (Some 100) None]
          \<and> map_option (\<lambda>(ai, sa). (ai_family ai, sin_addr sa)) (endpoint_at (world (snd r)) 100)
              = Some (AF_INET, [127, 0, 0, 1])"
    using r b t
    by (simp add: hooked_getaddrinfo_async_start_def call_callback_def Let_def env0_def rec
          endpoint_at_built [OF build_app] fill_addrinfo_fields fill_sockaddr_in_fields)
  have real: "call_async_start env0 4096 (Some 9) (Some ''app.localhost'') (Some ''8080'')
        (Some hints6) (Some 500) None state_captured
       = (0, state_captured\<lparr>trace := [Ev_async_start 4096 (Some 9) (Some ''app.localhost'')
                                         (Some ''8080'') (Some hints6) (Some 500) None]\<rparr>)"
    by (simp add: call_async_start_def env0_def w t)
  have sync: "hooked_getaddrinfo env0 (Some ''app.localhost'') (Some ''8080'') (Some hints6) 7
        state_captured
       = (8, state_captured\<lparr>trace := [Ev_getaddrinfo None (Some ''app.localhost'')
                                         (Some ''8080'') (Some hints6) 7]\<rparr>)"
    using six
    by (simp add: hooked_getaddrinfo_def intercept_sync_def reserved_app call_getaddrinfo_def
          env0_def w t)
  from six cap async real sync show ?thesis by blast
qed

section \<open>Facts about the symbol lookup hook\<close>

lemma is_async_symbol_iff:
  "is_async_symbol symbol =
     (case symbol of
        None \<Rightarrow> False
      | Some name \<Rightarrow> c_str name = ''getaddrinfo_async_start'')"
  by (simp add: is_async_symbol_def strcmp_zero_iff c_str_def split: option.split)

lemma hooked_dlsym_world:
  "world (snd (hooked_dlsym e handle symbol s)) = snd (libc_dlsym e handle symbol (world s))"
  by (cases "libc_dlsym e handle symbol (world s)")
     (simp add: hooked_dlsym_def call_dlsym_def)

lemma hooked_dlsym_register:
  "real_async_start (snd (hooked_dlsym e handle symbol s)) =
     (case real_async_start s of
        Some a \<Rightarrow> Some a
      | None \<Rightarrow>
          if is_async_symbol symbol then fst (libc_dlsym e handle symbol (world s)) else None)"
  by (cases "libc_dlsym e handle symbol (world s)")
     (auto simp: hooked_dlsym_def call_dlsym_def split: option.split)

lemma hooked_dlsym_result:
  "fst (hooked_dlsym e handle symbol s) =
     (if is_async_symbol symbol then Some Hooked_getaddrinfo_async_start
      else map_option Extern (fst (libc_dlsym e handle symbol (world s))))"
  by (cases "libc_dlsym e handle symbol (world s)")
     (simp add: hooked_dlsym_def call_dlsym_def)

lemma dlsym_run_append:
  "dlsym_run e (calls @ later) s = dlsym_run e later (dlsym_run e calls s)"
  by (induction calls arbitrary: s) auto

lemma dlsym_run_register:
  "real_async_start (dlsym_run e calls s) =
     (case real_async_start s of
        Some a \<Rightarrow> Some a
      | None \<Rightarrow> first_capture e calls (world s))"
proof (induction calls arbitrary: s)
  case Nil
  show ?case by (simp split: option.split)
next
  case (Cons c calls)
  obtain handle symbol where c: "c = (handle, symbol)" by (cases c)
  obtain r w where l: "libc_dlsym e handle symbol (world s) = (r, w)"
    by (cases "libc_dlsym e handle symbol (world s)")
  show ?case
    using l
    by (auto simp: c Cons.IH hooked_dlsym_register hooked_dlsym_world split: option.split)
qed

lemma hooked_dlsym_env0:
  "hooked_dlsym env0 3 (Some ''getaddrinfo_async_start'') state0 =
     (Some Hooked_getaddrinfo_async_start,
      state0\<lparr>trace := [Ev_dlsym 3 (Some ''getaddrinfo_async_start'')]\<rparr>)"
  by (simp add: hooked_dlsym_def call_dlsym_def is_async_symbol_iff c_str_def env0_def
        state0_def)

section \<open>The capture register's contract\<close>

text \<open>
  C4. \<^verbatim>\<open>real_async_start\<close> is written at most once. Over any sequence of calls of
  \<^verbatim>\<open>hooked_dlsym\<close>, with any handles and symbol names and whatever the system's \<^verbatim>\<open>dlsym\<close>
  answers: a register that holds an address keeps it; an address held after some calls is
  still held after any further calls; and the register's value at the end is the value it
  started with or, if it started as null, the first answer other than null that a lookup of
  \<^verbatim>\<open>getaddrinfo_async_start\<close> got (null if there was none).
\<close>

theorem capture_write_once:
  "(real_async_start s = Some a \<longrightarrow> real_async_start (dlsym_run e calls s) = Some a)
   \<and> (real_async_start (dlsym_run e calls s) = Some a \<longrightarrow>
        real_async_start (dlsym_run e (calls @ later) s) = Some a)
   \<and> real_async_start (dlsym_run e calls s) =
       (case real_async_start s of
          Some a' \<Rightarrow> Some a'
        | None \<Rightarrow> first_capture e calls (world s))"
proof -
  have keep: "real_async_start (dlsym_run e cs s') = Some a"
    if "real_async_start s' = Some a" for cs s'
    using that by (simp add: dlsym_run_register)
  have later: "real_async_start (dlsym_run e calls s) = Some a \<longrightarrow>
        real_async_start (dlsym_run e (calls @ later) s) = Some a"
    unfolding dlsym_run_append using keep by blast
  from keep later show ?thesis by (simp add: dlsym_run_register)
qed

theorem capture_write_once_witness:
  "real_async_start
     (dlsym_run env1 [(1, Some ''getaddrinfo_async_start'')] state0) = Some 4097
   \<and> fst (libc_dlsym env1 2 (Some ''getaddrinfo_async_start'') world0) = Some 4098
   \<and> real_async_start
       (dlsym_run env1 ([(1, Some ''getaddrinfo_async_start'')]
                        @ [(2, Some ''getaddrinfo_async_start'')]) state0) = Some 4097
   \<and> first_capture env1 [(1, Some ''getaddrinfo_async_start''),
                          (2, Some ''getaddrinfo_async_start'')] (world state0) = Some 4097"
proof -
  have sym: "is_async_symbol (Some ''getaddrinfo_async_start'')"
    by (simp add: is_async_symbol_iff c_str_def)
  have one: "real_async_start
     (dlsym_run env1 [(1, Some ''getaddrinfo_async_start'')] state0) = Some 4097"
    by (simp add: hooked_dlsym_register sym env1_def env0_def state0_def)
  have other: "fst (libc_dlsym env1 2 (Some ''getaddrinfo_async_start'') world0) = Some 4098"
    by (simp add: env1_def env0_def)
  have first: "first_capture env1 [(1, Some ''getaddrinfo_async_start''),
                          (2, Some ''getaddrinfo_async_start'')] (world state0) = Some 4097"
    by (simp add: sym env1_def env0_def)
  from capture_write_once [of state0 4097 env1 "[(1, Some ''getaddrinfo_async_start'')]"
         "[(2, Some ''getaddrinfo_async_start'')]"] one
  have two: "real_async_start
       (dlsym_run env1 ([(1, Some ''getaddrinfo_async_start'')]
                        @ [(2, Some ''getaddrinfo_async_start'')]) state0) = Some 4097"
    by blast
  from one other two first show ?thesis by blast
qed

text \<open>
  C10, as amended. \<^verbatim>\<open>hooked_dlsym\<close>, asked for a symbol whose name is exactly
  \<^verbatim>\<open>getaddrinfo_async_start\<close>, returns the address of the replacement entry point whatever
  the system's \<^verbatim>\<open>dlsym\<close> answers. When that answer is null nothing is captured: the
  register keeps its value, so a register that was null stays null. A call of the
  replacement entry point that follows takes the degraded path when it produces no
  synthetic record (the hostname is not reserved, or the builder fails): it returns -1 and
  calls the callback, when there is one, with status -1 and a null record.
\<close>

theorem hooked_dlsym_null_lookup:
  assumes name: "symbol = Some name" "c_str name = ''getaddrinfo_async_start''"
  shows "fst (hooked_dlsym e handle symbol s) = Some Hooked_getaddrinfo_async_start
       \<and> (fst (libc_dlsym e handle symbol (world s)) = None \<longrightarrow>
            real_async_start (snd (hooked_dlsym e handle symbol s)) = real_async_start s)
       \<and> (fst (libc_dlsym e handle symbol (world s)) = None \<and> real_async_start s = None
            \<and> \<not> (is_localhost_domain node \<noteq> 0
                   \<and> builds Darwin service hints (world (snd (hooked_dlsym e handle symbol s))))
          \<longrightarrow>
            (let r = hooked_getaddrinfo_async_start e port node service hints callback context
                       (snd (hooked_dlsym e handle symbol s))
             in fst r = - 1
                \<and> trace (snd r) =
                    trace (snd (hooked_dlsym e handle symbol s))
                    @ (case callback of
                         None \<Rightarrow> []
                       | Some cb \<Rightarrow> [Ev_callback cb (- 1) None context])))"
proof -
  have sym: "is_async_symbol symbol"
    using name by (simp add: is_async_symbol_iff)
  have ret: "fst (hooked_dlsym e handle symbol s) = Some Hooked_getaddrinfo_async_start"
    using sym by (simp add: hooked_dlsym_result)
  have reg: "real_async_start (snd (hooked_dlsym e handle symbol s)) = real_async_start s"
    if "fst (libc_dlsym e handle symbol (world s)) = None"
    using that sym by (simp add: hooked_dlsym_register split: option.split)
  have degraded:
    "let r = hooked_getaddrinfo_async_start e port node service hints callback context
                       (snd (hooked_dlsym e handle symbol s))
     in fst r = - 1
        \<and> trace (snd r) =
            trace (snd (hooked_dlsym e handle symbol s))
            @ (case callback of
                 None \<Rightarrow> []
               | Some cb \<Rightarrow> [Ev_callback cb (- 1) None context])"
    if null: "fst (libc_dlsym e handle symbol (world s)) = None"
      and unset: "real_async_start s = None"
      and nosynth: "\<not> (is_localhost_domain node \<noteq> 0
                   \<and> builds Darwin service hints (world (snd (hooked_dlsym e handle symbol s))))"
  proof -
    have u: "real_async_start (snd (hooked_dlsym e handle symbol s)) = None"
      using reg [OF null] unset by simp
    show ?thesis
      using async_degraded_fallback [OF nosynth u, of e port callback "context"]
      by (simp add: Let_def)
  qed
  from ret reg degraded show ?thesis by blast
qed

theorem hooked_dlsym_null_lookup_witness:
  "c_str ''getaddrinfo_async_start'' = ''getaddrinfo_async_start''
   \<and> fst (libc_dlsym env0 3 (Some ''getaddrinfo_async_start'') (world state0)) = None
   \<and> real_async_start state0 = None
   \<and> fst (hooked_dlsym env0 3 (Some ''getaddrinfo_async_start'') state0)
       = Some Hooked_getaddrinfo_async_start
   \<and> real_async_start (snd (hooked_dlsym env0 3 (Some ''getaddrinfo_async_start'') state0))
       = None
   \<and> (let r = hooked_getaddrinfo_async_start env0 (Some 9) (Some ''example.com'') None None
                 (Some 500) None
                 (snd (hooked_dlsym env0 3 (Some ''getaddrinfo_async_start'') state0))
       in fst r = - 1
          \<and> trace (snd r) =
              [Ev_dlsym 3 (Some ''getaddrinfo_async_start''), Ev_callback 500 (- 1) None None])"
proof -
  let ?sym = "Some ''getaddrinfo_async_start''"
  have n: "c_str ''getaddrinfo_async_start'' = ''getaddrinfo_async_start''"
    by (simp add: c_str_def)
  have l: "fst (libc_dlsym env0 3 ?sym (world state0)) = None"
    by (simp add: env0_def)
  have u: "real_async_start state0 = None"
    by (simp add: state0_def)
  have x: "\<not> (is_localhost_domain (Some ''example.com'') \<noteq> 0
             \<and> builds Darwin None None (world (snd (hooked_dlsym env0 3 ?sym state0))))"
    by (simp add: not_reserved_example)
  have t: "trace (snd (hooked_dlsym env0 3 ?sym state0)) = [Ev_dlsym 3 ?sym]"
    by (simp add: hooked_dlsym_env0)
  note inst = hooked_dlsym_null_lookup [OF refl n, of env0 3 state0 "Some ''example.com''"
      None None "Some 9" "Some 500" None]
  from inst l u x t n show ?thesis
    by (simp add: Let_def)
qed

text \<open>
  C10 as stated fails in its last part: not every call that follows a lookup answered with
  null takes the degraded path. The replacement entry point classifies the hostname
  before it looks at the register, so after such a lookup, with the register still null, a
  call for a reserved hostname whose record can be built is answered with that record: the
  callback gets status 0 and the record, and the function returns 0.
\<close>

theorem hooked_dlsym_null_lookup_counterexample:
  "fst (libc_dlsym env0 3 (Some ''getaddrinfo_async_start'') (world state0)) = None
   \<and> fst (hooked_dlsym env0 3 (Some ''getaddrinfo_async_start'') state0)
       = Some Hooked_getaddrinfo_async_start
   \<and> real_async_start (snd (hooked_dlsym env0 3 (Some ''getaddrinfo_async_start'') state0))
       = None
   \<and> (let r = hooked_getaddrinfo_async_start env0 (Some 9) (Some ''app.localhost'')
                 (Some ''8080'') None (Some 500) None
                 (snd (hooked_dlsym env0 3 (Some ''getaddrinfo_async_start'') state0))
       in fst r = 0
          \<and> fst r \<noteq> - 1
          \<and> trace (snd r) =
              [Ev_dlsym 3 (Some ''getaddrinfo_async_start''),
               Ev_callback 500 0 (Some 100) None])"
proof -
  let ?sym = "Some ''getaddrinfo_async_start''"
  let ?s1 = "state0\<lparr>trace := [Ev_dlsym 3 ?sym]\<rparr>"
  have l: "fst (libc_dlsym env0 3 ?sym (world state0)) = None"
    by (simp add: env0_def)
  have h: "fst (hooked_dlsym env0 3 ?sym state0) = Some Hooked_getaddrinfo_async_start"
    by (simp add: hooked_dlsym_env0)
  have u: "real_async_start (snd (hooked_dlsym env0 3 ?sym state0)) = None"
    by (simp add: hooked_dlsym_env0) (simp add: state0_def)
  have w: "world ?s1 = world0" and t: "trace ?s1 = [Ev_dlsym 3 ?sym]"
    by (simp_all add: state0_def)
  have r: "is_localhost_domain (Some ''app.localhost'') \<noteq> 0"
    by (simp add: reserved_app)
  have b: "make_localhost_result Darwin (Some ''8080'') None (world ?s1) =
       (Some 100, snd (make_localhost_result Darwin (Some ''8080'') None world0))"
    using build_app [of Darwin None] by (simp only: w)
  have call: "let r = hooked_getaddrinfo_async_start env0 (Some 9) (Some ''app.localhost'')
                 (Some ''8080'') None (Some 500) None ?s1
       in fst r = 0
          \<and> fst r \<noteq> - 1
          \<and> trace (snd r) = [Ev_dlsym 3 ?sym, Ev_callback 500 0 (Some 100) None]"
    using r b t
    by (simp add: hooked_getaddrinfo_async_start_def call_callback_def Let_def)
  from l h u call show ?thesis
    by (simp add: hooked_dlsym_env0)
qed

end
